theory Spec2Isabelle
  imports Complex_Main
begin

section \<open>Synthetic NMR permeability data generator\<close>

text \<open>
  A shallow embedding of \<^verbatim>\<open>src/data_generator.py\<close> (class \<^verbatim>\<open>NMRDataGenerator\<close>).

  Modelling decisions, valid for the whole development:
  \<^item> A Python float is a \<^typ>\<open>real\<close>: arithmetic is exact, there is no rounding and no
    overflow. Where the source can meet or produce the special values \<^verbatim>\<open>nan\<close> and \<^verbatim>\<open>inf\<close>
    (the statistics on arbitrary data), the entries are of type \<open>npfloat\<close>, which has
    them.
  \<^item> An exception is a value \<open>Inl e\<close> of the sum type \<open>error + 'a\<close>.
  \<^item> The module-level random stream of \<^verbatim>\<open>numpy.random\<close> is global mutable state. It is
    passed explicitly: every operation that touches it takes the stream state and
    returns the new one.
  \<^item> numpy is not part of the repository. Its random number generator is a parameter
    of the model (record \<open>np_random\<close>); its array helpers (\<^verbatim>\<open>linspace\<close>, \<^verbatim>\<open>logspace\<close>,
    \<^verbatim>\<open>clip\<close>, \<^verbatim>\<open>max\<close>, \<^verbatim>\<open>mean\<close>, \<^verbatim>\<open>corrcoef\<close>) are written out from their documented
    behaviour.
\<close>

subsection \<open>Exceptions\<close>

datatype error = ValueError | KeyError | ZeroDivisionError

subsection \<open>The random stream of numpy, as a parameter\<close>

text \<open>
  \<open>rk_seed s\<close> is \<^verbatim>\<open>np.random.seed(s)\<close>: the new stream state, a function of the seed alone,
  or the exception numpy raises for a seed it does not accept.
  \<open>rk_uniform lo hi n st\<close> is \<^verbatim>\<open>np.random.uniform(lo, hi, n)\<close> and
  \<open>rk_lognormal mean sigma n st\<close> is \<^verbatim>\<open>np.random.lognormal(mean, sigma, n)\<close> in stream state
  \<open>st\<close>: the array drawn and the state the stream is left in.
\<close>

record 's np_random =
  rk_seed :: "int \<Rightarrow> error + 's"
  rk_uniform :: "real \<Rightarrow> real \<Rightarrow> nat \<Rightarrow> 's \<Rightarrow> real list \<times> 's"
  rk_lognormal :: "real \<Rightarrow> real \<Rightarrow> nat \<Rightarrow> 's \<Rightarrow> real list \<times> 's"

text \<open>
  What numpy documents of the two distributions: a draw of size \<open>n\<close> has \<open>n\<close> entries,
  a uniform draw lies between its bounds and a log-normal draw is positive.
\<close>

definition uniform_in_bounds :: "'s np_random \<Rightarrow> bool" where
  "uniform_in_bounds R \<longleftrightarrow>
     (\<forall>lo hi n st. length (fst (rk_uniform R lo hi n st)) = n \<and>
        (lo \<le> hi \<longrightarrow> (\<forall>x \<in> set (fst (rk_uniform R lo hi n st)). lo \<le> x \<and> x \<le> hi)))"

definition lognormal_positive :: "'s np_random \<Rightarrow> bool" where
  "lognormal_positive R \<longleftrightarrow>
     (\<forall>mean sigma n st. length (fst (rk_lognormal R mean sigma n st)) = n \<and>
        (\<forall>x \<in> set (fst (rk_lognormal R mean sigma n st)). 0 < x))"

text \<open>
  A small deterministic stream that meets both contracts, used to run the model on
  concrete inputs: the state is a counter, a uniform draw walks through the thousandths
  of the interval and a log-normal draw through the hundredths between 1 and 2.
\<close>

definition counter_seed :: "int \<Rightarrow> error + nat" where
  "counter_seed s = (if 0 \<le> s \<and> s < 2 ^ 32 then Inr (nat s) else Inl ValueError)"

definition counter_uniform :: "real \<Rightarrow> real \<Rightarrow> nat \<Rightarrow> nat \<Rightarrow> real list \<times> nat" where
  "counter_uniform lo hi n st =
     (map (\<lambda>k. lo + (hi - lo) * (real ((st + k) mod 1000) / 1000)) [0..<n], st + n)"

definition counter_lognormal :: "real \<Rightarrow> real \<Rightarrow> nat \<Rightarrow> nat \<Rightarrow> real list \<times> nat" where
  "counter_lognormal mean sigma n st =
     (map (\<lambda>k. 1 + real ((st + k) mod 100) / 100) [0..<n], st + n)"

definition counter_rng :: "nat np_random" where
  "counter_rng =
     \<lparr>rk_seed = counter_seed, rk_uniform = counter_uniform, rk_lognormal = counter_lognormal\<rparr>"

subsection \<open>Array helpers of numpy\<close>

text \<open>\<^verbatim>\<open>np.clip(x, lo, hi)\<close> on one entry: \<^verbatim>\<open>minimum(maximum(x, lo), hi)\<close>.\<close>

definition clip :: "real \<Rightarrow> real \<Rightarrow> real \<Rightarrow> real" where
  "clip x lo hi = min (max x lo) hi"

text \<open>
  \<^verbatim>\<open>np.linspace(start, stop, num)\<close> with the default \<^verbatim>\<open>endpoint=True\<close>: a negative \<open>num\<close>
  raises \<^verbatim>\<open>ValueError\<close>; otherwise the indices \<open>0 .. num - 1\<close> are scaled by the step
  \<open>(stop - start) / (num - 1)\<close>, shifted by \<open>start\<close>, and for \<open>num > 1\<close> the last entry is
  overwritten with \<open>stop\<close>.
\<close>

definition linspace :: "real \<Rightarrow> real \<Rightarrow> int \<Rightarrow> error + real list" where
  "linspace start stop num =
     (if num < 0 then Inl ValueError
      else
        let n = nat num;
            dv = real n - 1;
            delta = stop - start;
            y = map real [0..<n];
            y = (if 0 < dv then
                   (let step = delta / dv
                    in if step = 0 then map (\<lambda>v. v / dv * delta) y else map (\<lambda>v. v * step) y)
                 else map (\<lambda>v. v * delta) y);
            y = map (\<lambda>v. v + start) y
        in Inr (if 1 < n then y[n - 1 := stop] else y))"

text \<open>\<^verbatim>\<open>np.logspace(start, stop, num)\<close> with base 10: \<^verbatim>\<open>10 ** linspace(start, stop, num)\<close>.\<close>

definition logspace :: "real \<Rightarrow> real \<Rightarrow> int \<Rightarrow> error + real list" where
  "logspace start stop num =
     (case linspace start stop num of
        Inl e \<Rightarrow> Inl e
      | Inr y \<Rightarrow> Inr (map (\<lambda>v. 10 powr v) y))"

text \<open>\<^verbatim>\<open>np.max\<close> of a one-dimensional array: an empty array raises \<^verbatim>\<open>ValueError\<close>.\<close>

fun np_max :: "real list \<Rightarrow> error + real" where
  "np_max [] = Inl ValueError"
| "np_max (x # xs) = Inr (fold max xs x)"

subsection \<open>Data frames\<close>

text \<open>
  A \<^verbatim>\<open>pandas.DataFrame\<close> built from a dict of arrays: the columns in their order, each
  with its name. \<open>column d name\<close> is \<^verbatim>\<open>d[name]\<close>, which raises \<^verbatim>\<open>KeyError\<close> when there is no
  such column.
\<close>

type_synonym DataFrame = "(string \<times> real list) list"

definition column :: "DataFrame \<Rightarrow> string \<Rightarrow> error + real list" where
  "column d name = (case map_of d name of None \<Rightarrow> Inl KeyError | Some xs \<Rightarrow> Inr xs)"

subsection \<open>The generator object\<close>

record NMRDataGenerator =
  n_samples :: int

text \<open>
  \<^verbatim>\<open>__init__(self, n_samples, random_seed)\<close>: stores \<open>n_samples\<close> and reseeds the global
  stream; the stream state before the call is discarded.
\<close>

definition init :: "'s np_random \<Rightarrow> int \<Rightarrow> int \<Rightarrow> 's \<Rightarrow> error + (NMRDataGenerator \<times> 's)" where
  "init R n random_seed st =
     (case rk_seed R random_seed of
        Inl e \<Rightarrow> Inl e
      | Inr st' \<Rightarrow> Inr (\<lparr>n_samples = n\<rparr>, st'))"

text \<open>
  \<^verbatim>\<open>generate_nmr_permeability_data(self)\<close>. Every numpy call of the body takes the size
  \<open>self.n_samples\<close>, and the first one (line 23) raises \<^verbatim>\<open>ValueError\<close> when it is negative;
  from there on the size is a natural number. The draws are made in the order of the
  source, each from the state the previous one left.
\<close>

definition generate_nmr_permeability_data ::
    "'s np_random \<Rightarrow> NMRDataGenerator \<Rightarrow> 's \<Rightarrow> error + (DataFrame \<times> 's)" where
  "generate_nmr_permeability_data R self st =
     (if n_samples self < 0 then Inl ValueError
      else
        let n = nat (n_samples self);
            (porosity, st) = rk_uniform R 0.05 0.35 n st;
            (t2_gm, st) = rk_lognormal R (ln 100) 0.8 n st;
            t2_gm = map (\<lambda>t. clip t 10 1000) t2_gm;
            (fraction, st) = rk_uniform R 0.2 0.6 n st;
            bfv = map2 (*) porosity fraction;
            ffi = map2 (-) porosity bfv;
            (clay_volume, st) = rk_uniform R 0 0.3 n st;
            base_perm = map2 (\<lambda>p r. p ^ 4 * r ^ 2 * 10000) porosity (map2 (/) ffi bfv);
            (noise, st) = rk_lognormal R 0 0.3 n st;
            core_permeability = map2 (*) base_perm noise;
            core_permeability = map (\<lambda>k. clip k 0.01 10000) core_permeability;
            coates_perm = map2 (\<lambda>p r. p ^ 4 * r ^ 2 * 10000) porosity (map2 (/) ffi bfv);
            (coates_noise, st) = rk_lognormal R 0 0.15 n st;
            coates_perm = map2 (*) coates_perm coates_noise;
            coates_perm = map (\<lambda>k. clip k 0.01 10000) coates_perm;
            timur_coates_perm = map2 (\<lambda>p b. 0.136 * (p powr 4.4) / b ^ 2 * 10000) porosity bfv;
            (timur_noise, st) = rk_lognormal R 0 0.2 n st;
            timur_coates_perm = map2 (*) timur_coates_perm timur_noise;
            timur_coates_perm = map (\<lambda>k. clip k 0.01 10000) timur_coates_perm;
            sdr_perm = map2 (\<lambda>p t. 4 * p ^ 4 * t ^ 2) porosity t2_gm;
            (sdr_noise, st) = rk_lognormal R 0 0.18 n st;
            sdr_perm = map2 (*) sdr_perm sdr_noise;
            sdr_perm = map (\<lambda>k. clip k 0.01 10000) sdr_perm
        in case linspace 2000 2500 (n_samples self) of
             Inl e \<Rightarrow> Inl e
           | Inr depth \<Rightarrow>
               Inr ([(''Depth_m'', depth),
                     (''Porosity'', porosity),
                     (''T2_GM_ms'', t2_gm),
                     (''BFV'', bfv),
                     (''FFI'', ffi),
                     (''Clay_Volume'', clay_volume),
                     (''Core_Permeability_mD'', core_permeability),
                     (''Coates_Permeability_mD'', coates_perm),
                     (''Timur_Coates_Permeability_mD'', timur_coates_perm),
                     (''SDR_Permeability_mD'', sdr_perm)], st))"

text \<open>
  \<^verbatim>\<open>generate_t2_distribution(self, n_bins)\<close>. Nothing here touches the random stream.
  The two exceptions are numpy's: \<^verbatim>\<open>logspace\<close> refuses a negative size and \<^verbatim>\<open>np.max\<close> an
  empty array.
\<close>

definition generate_t2_distribution ::
    "NMRDataGenerator \<Rightarrow> int \<Rightarrow> error + (real list \<times> real list)" where
  "generate_t2_distribution self n_bins =
     (case logspace (- 1) 4 n_bins of
        Inl e \<Rightarrow> Inl e
      | Inr t2_times \<Rightarrow>
          let clay_peak = map (\<lambda>t. exp (- ((ln t - ln 3) ^ 2) / (2 * 0.5 ^ 2))) t2_times;
              free_fluid_peak = map (\<lambda>t. exp (- ((ln t - ln 200) ^ 2) / (2 * 0.8 ^ 2))) t2_times;
              amplitudes = map2 (\<lambda>c f. 0.3 * c + 0.7 * f) clay_peak free_fluid_peak
          in (case np_max amplitudes of
                Inl e \<Rightarrow> Inl e
              | Inr m \<Rightarrow> Inr (t2_times, map (\<lambda>a. a / m) amplitudes)))"

subsection \<open>Floats with special values\<close>

text \<open>
  The statistics divide and take logarithms of data the caller supplies. numpy raises
  nothing there: a division by zero, the logarithm of zero or of a negative number and
  the mean of an empty array give \<^verbatim>\<open>inf\<close>, \<^verbatim>\<open>-inf\<close> or \<^verbatim>\<open>nan\<close> (with a warning), and these
  values propagate by the IEEE rules. Finite arithmetic stays exact; zero is unsigned.
\<close>

datatype npfloat = Fin real | PInf | NInf | NaN

definition signed_inf :: "real \<Rightarrow> npfloat" where
  "signed_inf s = (if 0 < s then PInf else if s < 0 then NInf else NaN)"

fun fneg :: "npfloat \<Rightarrow> npfloat" where
  "fneg (Fin x) = Fin (- x)"
| "fneg PInf = NInf"
| "fneg NInf = PInf"
| "fneg NaN = NaN"

fun fadd :: "npfloat \<Rightarrow> npfloat \<Rightarrow> npfloat" where
  "fadd NaN b = NaN"
| "fadd a NaN = NaN"
| "fadd (Fin x) (Fin y) = Fin (x + y)"
| "fadd (Fin x) b = b"
| "fadd a (Fin y) = a"
| "fadd PInf PInf = PInf"
| "fadd NInf NInf = NInf"
| "fadd PInf NInf = NaN"
| "fadd NInf PInf = NaN"

definition fsub :: "npfloat \<Rightarrow> npfloat \<Rightarrow> npfloat" where
  "fsub a b = fadd a (fneg b)"

fun fmul :: "npfloat \<Rightarrow> npfloat \<Rightarrow> npfloat" where
  "fmul NaN b = NaN"
| "fmul a NaN = NaN"
| "fmul (Fin x) (Fin y) = Fin (x * y)"
| "fmul (Fin x) PInf = signed_inf x"
| "fmul (Fin x) NInf = signed_inf (- x)"
| "fmul PInf (Fin y) = signed_inf y"
| "fmul NInf (Fin y) = signed_inf (- y)"
| "fmul PInf PInf = PInf"
| "fmul NInf NInf = PInf"
| "fmul PInf NInf = NInf"
| "fmul NInf PInf = NInf"

fun fdiv :: "npfloat \<Rightarrow> npfloat \<Rightarrow> npfloat" where
  "fdiv NaN b = NaN"
| "fdiv a NaN = NaN"
| "fdiv (Fin x) (Fin y) = (if y = 0 then signed_inf x else Fin (x / y))"
| "fdiv (Fin x) b = Fin 0"
| "fdiv PInf (Fin y) = (if 0 \<le> y then PInf else NInf)"
| "fdiv NInf (Fin y) = (if 0 \<le> y then NInf else PInf)"
| "fdiv a b = NaN"

fun fsqrt :: "npfloat \<Rightarrow> npfloat" where
  "fsqrt (Fin x) = (if 0 \<le> x then Fin (sqrt x) else NaN)"
| "fsqrt PInf = PInf"
| "fsqrt NInf = NaN"
| "fsqrt NaN = NaN"

fun fabs :: "npfloat \<Rightarrow> npfloat" where
  "fabs (Fin x) = Fin \<bar>x\<bar>"
| "fabs PInf = PInf"
| "fabs NInf = PInf"
| "fabs NaN = NaN"

text \<open>\<^verbatim>\<open>np.log10\<close> of one float entry.\<close>

fun np_log10 :: "npfloat \<Rightarrow> npfloat" where
  "np_log10 (Fin x) = (if 0 < x then Fin (log 10 x) else if x = 0 then NInf else NaN)"
| "np_log10 PInf = PInf"
| "np_log10 NInf = NaN"
| "np_log10 NaN = NaN"

text \<open>\<^verbatim>\<open>np.clip(c, -1, 1)\<close> as \<^verbatim>\<open>corrcoef\<close> applies it: \<^verbatim>\<open>nan\<close> stays \<^verbatim>\<open>nan\<close>.\<close>

fun fclip_unit :: "npfloat \<Rightarrow> npfloat" where
  "fclip_unit (Fin x) = Fin (min (max x (- 1)) 1)"
| "fclip_unit PInf = Fin 1"
| "fclip_unit NInf = Fin (- 1)"
| "fclip_unit NaN = NaN"

definition fsum :: "npfloat list \<Rightarrow> npfloat" where
  "fsum xs = foldl fadd (Fin 0) xs"

text \<open>
  The mean of a numpy array, as \<^verbatim>\<open>np.cov\<close> takes it of each row: the sum over the
  count; the mean of nothing is \<open>0 / 0\<close>, that is \<^verbatim>\<open>nan\<close>.
\<close>

definition np_mean :: "npfloat list \<Rightarrow> npfloat" where
  "np_mean xs = fdiv (fsum xs) (Fin (real (length xs)))"

text \<open>
  \<^verbatim>\<open>np.mean\<close> of a pandas \<^verbatim>\<open>Series\<close> (a column expression of a data frame) is the
  method \<^verbatim>\<open>Series.mean\<close>, which skips the \<^verbatim>\<open>nan\<close> entries: the sum of the others over their
  count, and \<^verbatim>\<open>nan\<close> when none is left. Infinite entries are not skipped.
\<close>

definition series_mean :: "npfloat list \<Rightarrow> npfloat" where
  "series_mean xs = np_mean (filter (\<lambda>x. x \<noteq> NaN) xs)"

text \<open>
  The off-diagonal entry \<^verbatim>\<open>np.corrcoef(x, y)[0, 1]\<close>. numpy computes the covariance
  matrix of the centred rows with the factor \<open>1 / (n - 1)\<close>, where a factor \<open>n - 1 \<le> 0\<close>
  is replaced by \<open>0.0\<close>, divides by the two standard deviations in turn and clips the
  result to \<open>[-1, 1]\<close>.
\<close>

definition np_cov :: "npfloat list \<Rightarrow> npfloat list \<Rightarrow> npfloat" where
  "np_cov xs ys =
     (let dx = map (\<lambda>x. fsub x (np_mean xs)) xs;
          dy = map (\<lambda>y. fsub y (np_mean ys)) ys;
          fact = real (length xs) - 1;
          fact = (if fact \<le> 0 then 0 else fact)
      in fmul (fsum (map2 fmul dx dy)) (fdiv (Fin 1) (Fin fact)))"

definition np_corrcoef :: "npfloat list \<Rightarrow> npfloat list \<Rightarrow> npfloat" where
  "np_corrcoef xs ys =
     fclip_unit (fdiv (fdiv (np_cov xs ys) (fsqrt (np_cov xs xs))) (fsqrt (np_cov ys ys)))"

subsection \<open>Model statistics\<close>

text \<open>
  \<^verbatim>\<open>calculate_statistics\<close> takes any data frame the caller hands it. A column of it is
  here either a float array, whose entries may be \<^verbatim>\<open>nan\<close> or infinite, or the column of
  dtype \<^verbatim>\<open>object\<close> with no entries that \<^verbatim>\<open>pd.DataFrame(columns=[...])\<close> creates. All columns
  of a pandas frame have the same number of rows. \<open>frame_column data name\<close> is
  \<^verbatim>\<open>data[name]\<close>.
\<close>

datatype series = FloatSeries "npfloat list" | EmptyObjectSeries

type_synonym StatsFrame = "(string \<times> series) list"

definition frame_column :: "StatsFrame \<Rightarrow> string \<Rightarrow> error + series" where
  "frame_column data name =
     (case map_of data name of None \<Rightarrow> Inl KeyError | Some col \<Rightarrow> Inr col)"

text \<open>The frame a generation run returns, as \<^verbatim>\<open>calculate_statistics\<close> receives it.\<close>

definition float_frame :: "DataFrame \<Rightarrow> StatsFrame" where
  "float_frame d = map (\<lambda>(name, xs). (name, FloatSeries (map Fin xs))) d"

text \<open>
  \<^verbatim>\<open>np.log10\<close> of a column: entry by entry on floats; on the empty object column there
  is no entry to apply it to, and the result is again an empty object column.
\<close>

fun series_log10 :: "series \<Rightarrow> series" where
  "series_log10 (FloatSeries xs) = FloatSeries (map np_log10 xs)"
| "series_log10 EmptyObjectSeries = EmptyObjectSeries"

text \<open>
  \<^verbatim>\<open>np.corrcoef(x, y)[0, 1]\<close> on two columns. On float rows it raises nothing. When a
  row is the empty object column, the mean \<^verbatim>\<open>np.cov\<close> takes of the rows divides the
  Python integers \<open>0 / 0\<close> and raises \<^verbatim>\<open>ZeroDivisionError\<close>.
\<close>

fun series_corrcoef :: "series \<Rightarrow> series \<Rightarrow> error + npfloat" where
  "series_corrcoef (FloatSeries xs) (FloatSeries ys) = Inr (np_corrcoef xs ys)"
| "series_corrcoef x y = Inl ZeroDivisionError"

text \<open>The entries of a column.\<close>

fun entries :: "series \<Rightarrow> npfloat list" where
  "entries (FloatSeries xs) = xs"
| "entries EmptyObjectSeries = []"

record model_stats =
  correlation :: npfloat
  rmse_log :: npfloat
  mape :: npfloat

text \<open>
  The body of the loop of \<^verbatim>\<open>calculate_statistics\<close> for one model name, in the order of
  the source: the two column lookups, which can raise \<^verbatim>\<open>KeyError\<close>; the correlation,
  which can raise \<^verbatim>\<open>ZeroDivisionError\<close>; then the two errors, computed on float entries.
  Every statement reads \<open>data\<close>; none assigns to it.
\<close>

definition model_statistics :: "StatsFrame \<Rightarrow> string \<Rightarrow> error + model_stats" where
  "model_statistics data model =
     (let pred_col = model @ ''_Permeability_mD''
      in case frame_column data ''Core_Permeability_mD'' of
           Inl e \<Rightarrow> Inl e
         | Inr core \<Rightarrow>
             (case frame_column data pred_col of
                Inl e \<Rightarrow> Inl e
              | Inr pred \<Rightarrow>
                  (case series_corrcoef (series_log10 core) (series_log10 pred) of
                     Inl e \<Rightarrow> Inl e
                   | Inr corr \<Rightarrow>
                       let rmse = fsqrt (series_mean
                                    (map2 (\<lambda>a b. fmul (fsub a b) (fsub a b))
                                       (entries (series_log10 core))
                                       (entries (series_log10 pred))));
                           mape = fmul (series_mean
                                    (map2 (\<lambda>c p. fabs (fdiv (fsub c p) c))
                                       (entries core) (entries pred))) (Fin 100)
                       in Inr \<lparr>correlation = corr, rmse_log = rmse, mape = mape\<rparr>)))"

text \<open>
  The loop over the model names. The data frame is a mutable object the caller still
  holds afterwards, so the loop returns it next to the outcome, as the body left it.
\<close>

fun statistics_loop ::
    "StatsFrame \<Rightarrow> string list \<Rightarrow> (string \<rightharpoonup> model_stats)
       \<Rightarrow> StatsFrame \<times> (error + (string \<rightharpoonup> model_stats))" where
  "statistics_loop data [] stats = (data, Inr stats)"
| "statistics_loop data (model # models) stats =
     (case model_statistics data model of
        Inl e \<Rightarrow> (data, Inl e)
      | Inr s \<Rightarrow> statistics_loop data models (stats(model \<mapsto> s)))"

text \<open>
  \<^verbatim>\<open>calculate_statistics(self, data)\<close>: the data frame after the call, and the dict
  returned or the exception raised.
\<close>

definition calculate_statistics ::
    "NMRDataGenerator \<Rightarrow> StatsFrame \<Rightarrow> StatsFrame \<times> (error + (string \<rightharpoonup> model_stats))" where
  "calculate_statistics self data =
     statistics_loop data [''Coates'', ''Timur_Coates'', ''SDR''] Map.empty"

text \<open>The four columns \<^verbatim>\<open>calculate_statistics\<close> reads are present and are float arrays.\<close>

definition float_permeability_columns :: "StatsFrame \<Rightarrow> bool" where
  "float_permeability_columns data \<longleftrightarrow>
     (\<forall>name \<in> set [''Core_Permeability_mD'', ''Coates_Permeability_mD'',
                    ''Timur_Coates_Permeability_mD'', ''SDR_Permeability_mD''].
        \<exists>xs. frame_column data name = Inr (FloatSeries xs))"

text \<open>The four columns are present and are empty columns of dtype object.\<close>

definition object_permeability_columns :: "StatsFrame \<Rightarrow> bool" where
  "object_permeability_columns data \<longleftrightarrow>
     (\<forall>name \<in> set [''Core_Permeability_mD'', ''Coates_Permeability_mD'',
                    ''Timur_Coates_Permeability_mD'', ''SDR_Permeability_mD''].
        frame_column data name = Inr EmptyObjectSeries)"

text \<open>
  Three data frames with the four permeability columns: float columns with no rows,
  float columns with a single row whose ground-truth permeability is zero, and the
  frame \<^verbatim>\<open>pd.DataFrame(columns=[...])\<close> of object columns with no rows.
\<close>

definition empty_data :: StatsFrame where
  "empty_data =
     [(''Core_Permeability_mD'', FloatSeries []),
      (''Coates_Permeability_mD'', FloatSeries []),
      (''Timur_Coates_Permeability_mD'', FloatSeries []),
      (''SDR_Permeability_mD'', FloatSeries [])]"

definition zero_core_data :: StatsFrame where
  "zero_core_data =
     [(''Core_Permeability_mD'', FloatSeries [Fin 0]),
      (''Coates_Permeability_mD'', FloatSeries [Fin 1]),
      (''Timur_Coates_Permeability_mD'', FloatSeries [Fin 1]),
      (''SDR_Permeability_mD'', FloatSeries [Fin 1])]"

definition empty_object_data :: StatsFrame where
  "empty_object_data =
     [(''Core_Permeability_mD'', EmptyObjectSeries),
      (''Coates_Permeability_mD'', EmptyObjectSeries),
      (''Timur_Coates_Permeability_mD'', EmptyObjectSeries),
      (''SDR_Permeability_mD'', EmptyObjectSeries)]"

subsection \<open>Several wells\<close>

text \<open>Python's \<^verbatim>\<open>str\<close> of an integer, as the f-string \<^verbatim>\<open>f'Well_{i}'\<close> renders the index.\<close>

fun str_nat :: "nat \<Rightarrow> string" where
  "str_nat n =
     (if n < 10 then [char_of (48 + n)]
      else str_nat (n div 10) @ [char_of (48 + n mod 10)])"

definition str_int :: "int \<Rightarrow> string" where
  "str_int i = (if i < 0 then CHR ''-'' # str_nat (nat (- i)) else str_nat (nat i))"

text \<open>
  The loop of \<^verbatim>\<open>generate_well_data\<close> over the remaining indices: each round reseeds the
  global stream with \<open>42 + i\<close>, generates a data frame and stores it under \<^verbatim>\<open>Well_i\<close>.
\<close>

fun wells_loop ::
    "'s np_random \<Rightarrow> NMRDataGenerator \<Rightarrow> int list \<Rightarrow> (string \<rightharpoonup> DataFrame) \<Rightarrow> 's
       \<Rightarrow> error + ((string \<rightharpoonup> DataFrame) \<times> 's)" where
  "wells_loop R self [] wells st = Inr (wells, st)"
| "wells_loop R self (i # rest) wells st =
     (case rk_seed R (42 + i) of
        Inl e \<Rightarrow> Inl e
      | Inr st1 \<Rightarrow>
          (case generate_nmr_permeability_data R self st1 of
             Inl e \<Rightarrow> Inl e
           | Inr (well_data, st2) \<Rightarrow>
               wells_loop R self rest (wells(''Well_'' @ str_int i \<mapsto> well_data)) st2))"

text \<open>\<^verbatim>\<open>generate_well_data(self, n_wells)\<close>; \<^verbatim>\<open>range(1, n_wells + 1)\<close> is the list \<open>[1..n_wells]\<close>.\<close>

definition generate_well_data ::
    "'s np_random \<Rightarrow> NMRDataGenerator \<Rightarrow> int \<Rightarrow> 's \<Rightarrow> error + ((string \<rightharpoonup> DataFrame) \<times> 's)" where
  "generate_well_data R self n_wells st = wells_loop R self [1..n_wells] Map.empty st"

subsection \<open>Client sequences\<close>

text \<open>
  Construct a generator and generate at once, as the module's \<^verbatim>\<open>__main__\<close> block does:
  the data frame of a single-well run with the given seed.
\<close>

definition single_well :: "'s np_random \<Rightarrow> int \<Rightarrow> int \<Rightarrow> 's \<Rightarrow> error + DataFrame" where
  "single_well R n random_seed st =
     (case init R n random_seed st of
        Inl e \<Rightarrow> Inl e
      | Inr (generator, st) \<Rightarrow>
          (case generate_nmr_permeability_data R generator st of
             Inl e \<Rightarrow> Inl e
           | Inr (data, st) \<Rightarrow> Inr data))"

text \<open>
  Construct two generators with the same arguments first, then generate once on each:
  both constructors have run before the first draw, and the second generation draws
  from where the first one left the global stream.
\<close>

definition two_generators ::
    "'s np_random \<Rightarrow> int \<Rightarrow> int \<Rightarrow> 's \<Rightarrow> error + (DataFrame \<times> DataFrame)" where
  "two_generators R n random_seed st =
     (case init R n random_seed st of
        Inl e \<Rightarrow> Inl e
      | Inr (generator1, st) \<Rightarrow>
          (case init R n random_seed st of
             Inl e \<Rightarrow> Inl e
           | Inr (generator2, st) \<Rightarrow>
               (case generate_nmr_permeability_data R generator1 st of
                  Inl e \<Rightarrow> Inl e
                | Inr (data1, st) \<Rightarrow>
                    (case generate_nmr_permeability_data R generator2 st of
                       Inl e \<Rightarrow> Inl e
                     | Inr (data2, st) \<Rightarrow> Inr (data1, data2)))))"

definition same_data :: "DataFrame \<times> DataFrame \<Rightarrow> bool" where
  "same_data p \<longleftrightarrow> fst p = snd p"

section \<open>Properties\<close>

subsection \<open>The counter stream meets the contracts\<close>

lemma counter_rng_sel:
  "rk_seed counter_rng = counter_seed"
  "rk_uniform counter_rng = counter_uniform"
  "rk_lognormal counter_rng = counter_lognormal"
  by (simp_all add: counter_rng_def)

lemma counter_step_bounds:
  fixes lo hi :: real
  assumes "lo \<le> hi"
  shows "lo \<le> lo + (hi - lo) * (real (m mod 1000) / 1000)"
    and "lo + (hi - lo) * (real (m mod 1000) / 1000) \<le> hi"
proof -
  have a: "0 \<le> real (m mod 1000) / 1000" by simp
  have b: "real (m mod 1000) / 1000 \<le> 1" by simp
  have c: "0 \<le> hi - lo" using assms by simp
  have "0 \<le> (hi - lo) * (real (m mod 1000) / 1000)"
    using c a by (rule mult_nonneg_nonneg)
  then show "lo \<le> lo + (hi - lo) * (real (m mod 1000) / 1000)" by simp
  have "(hi - lo) * (real (m mod 1000) / 1000) \<le> (hi - lo) * 1"
    using b c by (rule mult_left_mono)
  then show "lo + (hi - lo) * (real (m mod 1000) / 1000) \<le> hi" by simp
qed

lemma counter_uniform_ok: "uniform_in_bounds counter_rng"
  unfolding uniform_in_bounds_def counter_rng_def counter_uniform_def
  using counter_step_bounds by auto

lemma counter_lognormal_ok: "lognormal_positive counter_rng"
  unfolding lognormal_positive_def counter_rng_def counter_lognormal_def
  by (auto intro: add_pos_nonneg)

subsection \<open>linspace\<close>

lemma linspace_neg: "num < 0 \<Longrightarrow> linspace start stop num = Inl ValueError"
  by (simp add: linspace_def)

lemma linspace_length:
  "0 \<le> num \<Longrightarrow> \<exists>ys. linspace start stop num = Inr ys \<and> length ys = nat num"
  by (simp add: linspace_def Let_def)

lemma linspace_nth:
  assumes "2 \<le> num" and "linspace start stop num = Inr ys" and "i < nat num"
  shows "ys ! i = start + real i * ((stop - start) / (real (nat num) - 1))"
proof -
  let ?n = "nat num"
  have n: "2 \<le> ?n" using assms(1) by simp
  hence dv: "0 < real ?n - 1" by simp
  show ?thesis
  proof (cases "i = ?n - 1")
    case True
    have "ys ! i = stop" using assms n True
      by (auto simp: linspace_def Let_def split: if_splits)
    moreover have "real i = real ?n - 1" using True n by simp
    ultimately show ?thesis using dv by simp
  next
    case False
    then show ?thesis using assms n dv
      by (auto simp: linspace_def Let_def split: if_splits)
  qed
qed

subsection \<open>One generation run\<close>

lemma generate_neg:
  "n_samples self < 0 \<Longrightarrow> generate_nmr_permeability_data R self st = Inl ValueError"
  by (simp add: generate_nmr_permeability_data_def)

text \<open>Generation returns a data frame whenever the sample count is not negative.\<close>

lemma generate_returns:
  assumes "0 \<le> n_samples self"
  shows "\<exists>d st'. generate_nmr_permeability_data R self st = Inr (d, st')"
proof -
  obtain depth where "linspace 2000 2500 (n_samples self) = Inr depth"
    using linspace_length [OF assms] by blast
  then show ?thesis using assms
    by (simp add: generate_nmr_permeability_data_def Let_def split: prod.splits)
qed

text \<open>The data frame of a run, written in terms of the eight draws it makes.\<close>

lemma generate_explicit:
  assumes "generate_nmr_permeability_data R self st = Inr (d, st')"
  shows "\<exists>porosity s1 t2 s2 fraction s3 clay s4 noise s5 cnoise s6 tnoise s7 snoise depth.
     0 \<le> n_samples self \<and>
     rk_uniform R 0.05 0.35 (nat (n_samples self)) st = (porosity, s1) \<and>
     rk_lognormal R (ln 100) 0.8 (nat (n_samples self)) s1 = (t2, s2) \<and>
     rk_uniform R 0.2 0.6 (nat (n_samples self)) s2 = (fraction, s3) \<and>
     rk_uniform R 0 0.3 (nat (n_samples self)) s3 = (clay, s4) \<and>
     rk_lognormal R 0 0.3 (nat (n_samples self)) s4 = (noise, s5) \<and>
     rk_lognormal R 0 0.15 (nat (n_samples self)) s5 = (cnoise, s6) \<and>
     rk_lognormal R 0 0.2 (nat (n_samples self)) s6 = (tnoise, s7) \<and>
     rk_lognormal R 0 0.18 (nat (n_samples self)) s7 = (snoise, st') \<and>
     linspace 2000 2500 (n_samples self) = Inr depth \<and>
     d = [(''Depth_m'', depth),
          (''Porosity'', porosity),
          (''T2_GM_ms'', map (\<lambda>t. clip t 10 1000) t2),
          (''BFV'', map2 (*) porosity fraction),
          (''FFI'', map2 (-) porosity (map2 (*) porosity fraction)),
          (''Clay_Volume'', clay),
          (''Core_Permeability_mD'',
             map (\<lambda>k. clip k 0.01 10000)
               (map2 (*) (map2 (\<lambda>p r. p ^ 4 * r ^ 2 * 10000) porosity
                  (map2 (/) (map2 (-) porosity (map2 (*) porosity fraction))
                     (map2 (*) porosity fraction))) noise)),
          (''Coates_Permeability_mD'',
             map (\<lambda>k. clip k 0.01 10000)
               (map2 (*) (map2 (\<lambda>p r. p ^ 4 * r ^ 2 * 10000) porosity
                  (map2 (/) (map2 (-) porosity (map2 (*) porosity fraction))
                     (map2 (*) porosity fraction))) cnoise)),
          (''Timur_Coates_Permeability_mD'',
             map (\<lambda>k. clip k 0.01 10000)
               (map2 (*) (map2 (\<lambda>p b. 0.136 * (p powr 4.4) / b ^ 2 * 10000) porosity
                  (map2 (*) porosity fraction)) tnoise)),
          (''SDR_Permeability_mD'',
             map (\<lambda>k. clip k 0.01 10000)
               (map2 (*) (map2 (\<lambda>p t. 4 * p ^ 4 * t ^ 2) porosity
                  (map (\<lambda>t. clip t 10 1000) t2)) snoise))]"
  using assms unfolding generate_nmr_permeability_data_def Let_def
  by (auto split: if_splits prod.splits sum.splits)

lemma generate_porosity:
  assumes "generate_nmr_permeability_data R self st = Inr (d, st')"
  shows "column d ''Porosity'' = Inr (fst (rk_uniform R 0.05 0.35 (nat (n_samples self)) st))"
  using assms unfolding generate_nmr_permeability_data_def Let_def column_def
  by (auto split: if_splits prod.splits sum.splits)

text \<open>On the counter stream a run of \<open>n\<close> samples advances the state by its eight draws.\<close>

lemma generate_counter_state:
  assumes "generate_nmr_permeability_data counter_rng self st = Inr (d, st')"
  shows "st' = st + 8 * nat (n_samples self)"
  using assms unfolding generate_nmr_permeability_data_def Let_def counter_rng_sel
    counter_uniform_def counter_lognormal_def
  by (auto split: if_splits prod.splits sum.splits)

subsection \<open>Reproducibility of a single-well run\<close>

text \<open>
  Claim C1, as the code has it. The constructor reseeds the global stream, so a
  generation that follows its generator's construction directly is a function of the
  sample count and the seed alone: whatever state the stream was in before, constructing
  with the same \<open>n\<close> and \<open>random_seed\<close> and generating gives the same result, and that
  result is a data frame whenever the sample count is not negative and numpy accepts
  the seed.
\<close>

theorem single_well_deterministic:
  "single_well R n random_seed st1 = single_well R n random_seed st2 \<and>
   (0 \<le> n \<and> (\<exists>s. rk_seed R random_seed = Inr s) \<longrightarrow>
      (\<exists>d. single_well R n random_seed st1 = Inr d))"
proof (intro conjI impI)
  show "single_well R n random_seed st1 = single_well R n random_seed st2"
    by (simp add: single_well_def init_def)
next
  assume h: "0 \<le> n \<and> (\<exists>s. rk_seed R random_seed = Inr s)"
  then obtain s where s: "rk_seed R random_seed = Inr s" by blast
  have "0 \<le> n_samples \<lparr>n_samples = n\<rparr>" using h by simp
  then obtain d st' where
    "generate_nmr_permeability_data R \<lparr>n_samples = n\<rparr> s = Inr (d, st')"
    using generate_returns [of "\<lparr>n_samples = n\<rparr>" R s] by blast
  then show "\<exists>d. single_well R n random_seed st1 = Inr d"
    by (simp add: single_well_def init_def s)
qed

theorem single_well_deterministic_witness:
  "(0::int) \<le> 5 \<and> rk_seed counter_rng 42 = Inr 42 \<and>
   single_well counter_rng 5 42 0 = single_well counter_rng 5 42 7 \<and>
   (\<exists>d. single_well counter_rng 5 42 0 = Inr d)"
proof -
  have s: "rk_seed counter_rng 42 = Inr 42" by (simp add: counter_rng_sel counter_seed_def)
  have z: "(0::int) \<le> 5" by simp
  have t: "single_well counter_rng 5 42 0 = single_well counter_rng 5 42 7"
    and u: "0 \<le> (5::int) \<and> (\<exists>s. rk_seed counter_rng 42 = Inr s) \<longrightarrow>
              (\<exists>d. single_well counter_rng 5 42 0 = Inr d)"
    using single_well_deterministic [of counter_rng 5 42 0 7] by blast+
  have "\<exists>d. single_well counter_rng 5 42 0 = Inr d" using u z s by blast
  then show ?thesis using z s t by blast
qed

text \<open>
  Claim C1, as stated, fails when both generators are constructed before either
  generates: the second generation continues the stream the first one has advanced. On
  the counter stream, with one sample and seed 42, the first run starts at state 42 and
  the second at state 50, and their porosity columns differ.
\<close>

theorem two_generators_differ:
  "map_sum id same_data (two_generators counter_rng 1 42 0) = Inr False"
proof -
  let ?g = "\<lparr>n_samples = 1\<rparr>"
  obtain d1 s1 where g1: "generate_nmr_permeability_data counter_rng ?g 42 = Inr (d1, s1)"
    using generate_returns [of ?g counter_rng 42] by auto
  have s1: "s1 = 50" using generate_counter_state [OF g1] by simp
  obtain d2 s2 where g2: "generate_nmr_permeability_data counter_rng ?g 50 = Inr (d2, s2)"
    using generate_returns [of ?g counter_rng 50] by auto
  have "column d1 ''Porosity'' = Inr [0.05 + 0.3 * (42 / 1000)]"
    using generate_porosity [OF g1] by (simp add: counter_rng_sel counter_uniform_def)
  moreover have "column d2 ''Porosity'' = Inr [0.05 + 0.3 * (50 / 1000)]"
    using generate_porosity [OF g2] by (simp add: counter_rng_sel counter_uniform_def)
  ultimately have "d1 \<noteq> d2" by auto
  moreover have "two_generators counter_rng 1 42 0 = Inr (d1, d2)"
    using g1 g2 s1 by (simp add: two_generators_def init_def counter_rng_sel counter_seed_def)
  ultimately show ?thesis by (simp add: same_data_def)
qed

subsection \<open>Several wells\<close>

lemma wells_loop_state:
  "map_sum id fst (wells_loop R self is wells st1) =
   map_sum id fst (wells_loop R self is wells st2)"
  by (cases "is") simp_all

lemma str_int_1: "str_int 1 = ''1''"
  by code_simp

lemma upto_1: "[1..1] = [1::int]"
  by (simp add: upto_rec1)

text \<open>
  Claim C10. \<^verbatim>\<open>generate_well_data\<close> reseeds the global stream with \<open>42 + i\<close> before each
  well, so the seed given to the constructor has no effect on the wells: two generators
  with the same sample count, constructed with any two seeds from any two stream
  states, return the same wells (or raise the same exception) for every \<open>n_wells\<close>.
\<close>

theorem well_data_ignores_seed:
  assumes "init R n seed1 st1 = Inr (g1, s1)" and "init R n seed2 st2 = Inr (g2, s2)"
  shows "map_sum id fst (generate_well_data R g1 n_wells s1) =
         map_sum id fst (generate_well_data R g2 n_wells s2)"
proof -
  have "g1 = g2" using assms by (auto simp: init_def split: sum.splits)
  then show ?thesis
    unfolding generate_well_data_def by (simp add: wells_loop_state [of R g2 _ _ s1 s2])
qed

theorem well_data_ignores_seed_witness:
  "init counter_rng 2 1 0 = Inr (\<lparr>n_samples = 2\<rparr>, 1) \<and>
   init counter_rng 2 2 0 = Inr (\<lparr>n_samples = 2\<rparr>, 2) \<and>
   map_sum id fst (generate_well_data counter_rng \<lparr>n_samples = 2\<rparr> 3 1) =
   map_sum id fst (generate_well_data counter_rng \<lparr>n_samples = 2\<rparr> 3 2)"
proof -
  have a: "init counter_rng 2 1 0 = Inr (\<lparr>n_samples = 2\<rparr>, 1)"
    by (simp add: init_def counter_rng_sel counter_seed_def)
  have b: "init counter_rng 2 2 0 = Inr (\<lparr>n_samples = 2\<rparr>, 2)"
    by (simp add: init_def counter_rng_sel counter_seed_def)
  show ?thesis using a b well_data_ignores_seed [OF a b, of 3] by simp
qed

text \<open>
  Claim C2 says that well \<open>i\<close> is the single-well run seeded with \<open>base_seed + i\<close>. The
  code seeds with the literal \<open>42 + i\<close>. For a generator constructed with one sample and
  seed 7, asked for one well, on the counter stream: the data frame stored under
  \<^verbatim>\<open>Well_1\<close> is the single-well run of seed 43, and it is not the single-well run of
  seed \<open>7 + 1\<close>.
\<close>

theorem well_one_seeded_43:
  "\<exists>g s ws s' d. init counter_rng 1 7 0 = Inr (g, s) \<and>
     generate_well_data counter_rng g 1 s = Inr (ws, s') \<and>
     ws ''Well_1'' = Some d \<and>
     single_well counter_rng 1 43 0 = Inr d \<and>
     single_well counter_rng 1 (7 + 1) 0 \<noteq> Inr d"
proof -
  let ?g = "\<lparr>n_samples = 1\<rparr>"
  have i: "init counter_rng 1 7 0 = Inr (?g, 7)"
    by (simp add: init_def counter_rng_sel counter_seed_def)
  obtain d s' where g43: "generate_nmr_permeability_data counter_rng ?g 43 = Inr (d, s')"
    using generate_returns [of ?g counter_rng 43] by auto
  obtain e t' where g8: "generate_nmr_permeability_data counter_rng ?g 8 = Inr (e, t')"
    using generate_returns [of ?g counter_rng 8] by auto
  have "column d ''Porosity'' = Inr [0.05 + 0.3 * (43 / 1000)]"
    using generate_porosity [OF g43] by (simp add: counter_rng_sel counter_uniform_def)
  moreover have "column e ''Porosity'' = Inr [0.05 + 0.3 * (8 / 1000)]"
    using generate_porosity [OF g8] by (simp add: counter_rng_sel counter_uniform_def)
  ultimately have ne: "e \<noteq> d" by auto
  have w: "generate_well_data counter_rng ?g 1 7 = Inr ([''Well_1'' \<mapsto> d], s')"
    using g43
    by (simp add: generate_well_data_def upto_1 counter_rng_sel counter_seed_def str_int_1)
  have s43: "single_well counter_rng 1 43 0 = Inr d"
    using g43 by (simp add: single_well_def init_def counter_rng_sel counter_seed_def)
  have s8: "single_well counter_rng 1 (7 + 1) 0 = Inr e"
    using g8 by (simp add: single_well_def init_def counter_rng_sel counter_seed_def)
  show ?thesis using i w s43 s8 ne by simp
qed

subsection \<open>Invariants of the generated samples\<close>

lemma uniform_draw:
  assumes "uniform_in_bounds R" and "rk_uniform R lo hi n st = (xs, st')" and "lo \<le> hi"
  shows "length xs = n" and "\<And>i. i < n \<Longrightarrow> lo \<le> xs ! i \<and> xs ! i \<le> hi"
proof -
  have a: "length (fst (rk_uniform R lo hi n st)) = n"
    and b: "\<forall>x \<in> set (fst (rk_uniform R lo hi n st)). lo \<le> x \<and> x \<le> hi"
    using assms(1,3) unfolding uniform_in_bounds_def by blast+
  show len: "length xs = n" using a assms(2) by simp
  fix i assume "i < n"
  then have "xs ! i \<in> set xs" using len by simp
  then show "lo \<le> xs ! i \<and> xs ! i \<le> hi" using b assms(2) by simp
qed

lemma lognormal_draw:
  assumes "lognormal_positive R" and "rk_lognormal R mean sigma n st = (xs, st')"
  shows "length xs = n" and "\<And>i. i < n \<Longrightarrow> 0 < xs ! i"
proof -
  have a: "length (fst (rk_lognormal R mean sigma n st)) = n"
    and b: "\<forall>x \<in> set (fst (rk_lognormal R mean sigma n st)). 0 < x"
    using assms(1) unfolding lognormal_positive_def by blast+
  show len: "length xs = n" using a assms(2) by simp
  fix i assume "i < n"
  then have "xs ! i \<in> set xs" using len by simp
  then show "0 < xs ! i" using b assms(2) by simp
qed

text \<open>
  Claim C5. With uniform draws inside their bounds, every run that is given a
  non-negative sample count returns a data frame whose \<^verbatim>\<open>Porosity\<close>, \<^verbatim>\<open>BFV\<close> and \<^verbatim>\<open>FFI\<close>
  columns have one entry per sample, and in every sample the bound fluid volume is at
  most the porosity and the free fluid index is their difference and not negative.
\<close>

theorem bound_fluid_within_porosity:
  assumes "uniform_in_bounds R" and "0 \<le> n_samples self"
  shows "\<exists>d st' porosity bfv ffi.
     generate_nmr_permeability_data R self st = Inr (d, st') \<and>
     column d ''Porosity'' = Inr porosity \<and> column d ''BFV'' = Inr bfv \<and>
     column d ''FFI'' = Inr ffi \<and>
     length porosity = nat (n_samples self) \<and> length bfv = nat (n_samples self) \<and>
     length ffi = nat (n_samples self) \<and>
     (\<forall>i < nat (n_samples self).
        bfv ! i \<le> porosity ! i \<and> ffi ! i = porosity ! i - bfv ! i \<and> 0 \<le> ffi ! i)"
proof -
  let ?n = "nat (n_samples self)"
  obtain d st' where g: "generate_nmr_permeability_data R self st = Inr (d, st')"
    using generate_returns [OF assms(2), of R st] by blast
  from generate_explicit [OF g] obtain porosity s1 t2 s2 fraction s3 rest where
    p: "rk_uniform R 0.05 0.35 ?n st = (porosity, s1)" and
    f: "rk_uniform R 0.2 0.6 ?n s2 = (fraction, s3)" and
    d: "d = (''Depth_m'', fst rest) # (''Porosity'', porosity) #
            (''T2_GM_ms'', map (\<lambda>t. clip t 10 1000) t2) #
            (''BFV'', map2 (*) porosity fraction) #
            (''FFI'', map2 (-) porosity (map2 (*) porosity fraction)) # snd rest"
    by fastforce
  have lp: "length porosity = ?n"
    and bp: "\<And>i. i < ?n \<Longrightarrow> 0.05 \<le> porosity ! i \<and> porosity ! i \<le> 0.35"
    using uniform_draw [OF assms(1) p] by simp_all
  have lf: "length fraction = ?n"
    and bf: "\<And>i. i < ?n \<Longrightarrow> 0.2 \<le> fraction ! i \<and> fraction ! i \<le> 0.6"
    using uniform_draw [OF assms(1) f] by simp_all
  have c1: "column d ''Porosity'' = Inr porosity" by (simp add: d column_def)
  have c2: "column d ''BFV'' = Inr (map2 (*) porosity fraction)" by (simp add: d column_def)
  have c3: "column d ''FFI'' = Inr (map2 (-) porosity (map2 (*) porosity fraction))"
    by (simp add: d column_def)
  have main: "\<forall>i < ?n. (map2 (*) porosity fraction) ! i \<le> porosity ! i \<and>
       (map2 (-) porosity (map2 (*) porosity fraction)) ! i
          = porosity ! i - (map2 (*) porosity fraction) ! i \<and>
       0 \<le> (map2 (-) porosity (map2 (*) porosity fraction)) ! i"
  proof (intro allI impI)
    fix i assume i: "i < ?n"
    have p0: "0 \<le> porosity ! i" using bp [OF i] by simp
    have f1: "fraction ! i \<le> 1" using bf [OF i] by simp
    have "porosity ! i * fraction ! i \<le> porosity ! i * 1"
      using f1 p0 by (rule mult_left_mono)
    then show "(map2 (*) porosity fraction) ! i \<le> porosity ! i \<and>
       (map2 (-) porosity (map2 (*) porosity fraction)) ! i
          = porosity ! i - (map2 (*) porosity fraction) ! i \<and>
       0 \<le> (map2 (-) porosity (map2 (*) porosity fraction)) ! i"
      using i lp lf by simp
  qed
  show ?thesis using g c1 c2 c3 lp lf main by simp
qed

theorem bound_fluid_within_porosity_witness:
  "uniform_in_bounds counter_rng \<and> (0::int) \<le> 3 \<and>
   (\<exists>d st' porosity bfv ffi.
     generate_nmr_permeability_data counter_rng \<lparr>n_samples = 3\<rparr> 0 = Inr (d, st') \<and>
     column d ''Porosity'' = Inr porosity \<and> column d ''BFV'' = Inr bfv \<and>
     column d ''FFI'' = Inr ffi \<and>
     length porosity = 3 \<and> length bfv = 3 \<and> length ffi = 3 \<and>
     bfv ! 2 \<le> porosity ! 2 \<and> ffi ! 2 = porosity ! 2 - bfv ! 2 \<and> 0 \<le> ffi ! 2)"
proof -
  have h: "(0::int) \<le> n_samples \<lparr>n_samples = 3\<rparr>" by simp
  show ?thesis
    using bound_fluid_within_porosity [OF counter_uniform_ok h, of 0] counter_uniform_ok
    by fastforce
qed

text \<open>
  The model divides by the bound fluid volume. With uniform draws inside their bounds
  it is at least \<open>0.05 * 0.2\<close> in every sample, so no run divides by zero and the exact
  quotient is the one the source computes.
\<close>

lemma generate_bfv_positive:
  assumes "uniform_in_bounds R" and "generate_nmr_permeability_data R self st = Inr (d, st')"
  shows "\<exists>bfv. column d ''BFV'' = Inr bfv \<and> length bfv = nat (n_samples self) \<and>
           (\<forall>i < nat (n_samples self). 0.01 \<le> bfv ! i)"
proof -
  let ?n = "nat (n_samples self)"
  from generate_explicit [OF assms(2)] obtain porosity s1 t2 s2 fraction s3 rest where
    p: "rk_uniform R 0.05 0.35 ?n st = (porosity, s1)" and
    f: "rk_uniform R 0.2 0.6 ?n s2 = (fraction, s3)" and
    d: "d = (''Depth_m'', fst rest) # (''Porosity'', porosity) #
            (''T2_GM_ms'', map (\<lambda>t. clip t 10 1000) t2) #
            (''BFV'', map2 (*) porosity fraction) # snd rest"
    by fastforce
  have lp: "length porosity = ?n"
    and bp: "\<And>i. i < ?n \<Longrightarrow> 0.05 \<le> porosity ! i \<and> porosity ! i \<le> 0.35"
    using uniform_draw [OF assms(1) p] by simp_all
  have lf: "length fraction = ?n"
    and bf: "\<And>i. i < ?n \<Longrightarrow> 0.2 \<le> fraction ! i \<and> fraction ! i \<le> 0.6"
    using uniform_draw [OF assms(1) f] by simp_all
  have "\<forall>i < ?n. 0.01 \<le> (map2 (*) porosity fraction) ! i"
  proof (intro allI impI)
    fix i assume i: "i < ?n"
    have "0.05 * 0.2 \<le> porosity ! i * fraction ! i"
      using bp [OF i] bf [OF i] by (intro mult_mono) simp_all
    then show "0.01 \<le> (map2 (*) porosity fraction) ! i" using i lp lf by simp
  qed
  then show ?thesis using lp lf by (simp add: d column_def)
qed

text \<open>
  Claim C6. With draws that meet the contracts, every run that is given a non-negative
  sample count returns a data frame in which each of the four permeability columns has
  one entry per sample and every entry lies in the closed interval from 0.01 to 10000.
\<close>

theorem permeabilities_clamped:
  assumes "uniform_in_bounds R" and "lognormal_positive R" and "0 \<le> n_samples self"
  shows "\<exists>d st' core coates timur sdr.
     generate_nmr_permeability_data R self st = Inr (d, st') \<and>
     column d ''Core_Permeability_mD'' = Inr core \<and>
     column d ''Coates_Permeability_mD'' = Inr coates \<and>
     column d ''Timur_Coates_Permeability_mD'' = Inr timur \<and>
     column d ''SDR_Permeability_mD'' = Inr sdr \<and>
     length core = nat (n_samples self) \<and> length coates = nat (n_samples self) \<and>
     length timur = nat (n_samples self) \<and> length sdr = nat (n_samples self) \<and>
     (\<forall>x \<in> set core \<union> set coates \<union> set timur \<union> set sdr. 0.01 \<le> x \<and> x \<le> 10000)"
proof -
  let ?n = "nat (n_samples self)"
  obtain d st' where g: "generate_nmr_permeability_data R self st = Inr (d, st')"
    using generate_returns [OF assms(3), of R st] by blast
  from generate_explicit [OF g]
  obtain porosity s1 t2 s2 fraction s3 clay s4 noise s5 cnoise s6 tnoise s7 snoise depth where
    p: "rk_uniform R 0.05 0.35 ?n st = (porosity, s1)" and
    t: "rk_lognormal R (ln 100) 0.8 ?n s1 = (t2, s2)" and
    f: "rk_uniform R 0.2 0.6 ?n s2 = (fraction, s3)" and
    n1: "rk_lognormal R 0 0.3 ?n s4 = (noise, s5)" and
    n2: "rk_lognormal R 0 0.15 ?n s5 = (cnoise, s6)" and
    n3: "rk_lognormal R 0 0.2 ?n s6 = (tnoise, s7)" and
    n4: "rk_lognormal R 0 0.18 ?n s7 = (snoise, st')" and
    d: "d = [(''Depth_m'', depth),
          (''Porosity'', porosity),
          (''T2_GM_ms'', map (\<lambda>t. clip t 10 1000) t2),
          (''BFV'', map2 (*) porosity fraction),
          (''FFI'', map2 (-) porosity (map2 (*) porosity fraction)),
          (''Clay_Volume'', clay),
          (''Core_Permeability_mD'',
             map (\<lambda>k. clip k 0.01 10000)
               (map2 (*) (map2 (\<lambda>p r. p ^ 4 * r ^ 2 * 10000) porosity
                  (map2 (/) (map2 (-) porosity (map2 (*) porosity fraction))
                     (map2 (*) porosity fraction))) noise)),
          (''Coates_Permeability_mD'',
             map (\<lambda>k. clip k 0.01 10000)
               (map2 (*) (map2 (\<lambda>p r. p ^ 4 * r ^ 2 * 10000) porosity
                  (map2 (/) (map2 (-) porosity (map2 (*) porosity fraction))
                     (map2 (*) porosity fraction))) cnoise)),
          (''Timur_Coates_Permeability_mD'',
             map (\<lambda>k. clip k 0.01 10000)
               (map2 (*) (map2 (\<lambda>p b. 0.136 * (p powr 4.4) / b ^ 2 * 10000) porosity
                  (map2 (*) porosity fraction)) tnoise)),
          (''SDR_Permeability_mD'',
             map (\<lambda>k. clip k 0.01 10000)
               (map2 (*) (map2 (\<lambda>p t. 4 * p ^ 4 * t ^ 2) porosity
                  (map (\<lambda>t. clip t 10 1000) t2)) snoise))]"
    by blast
  have lens: "length porosity = ?n" "length fraction = ?n" "length t2 = ?n"
    "length noise = ?n" "length cnoise = ?n" "length tnoise = ?n" "length snoise = ?n"
    using uniform_draw(1) [OF assms(1) p] uniform_draw(1) [OF assms(1) f]
      lognormal_draw(1) [OF assms(2) t] lognormal_draw(1) [OF assms(2) n1]
      lognormal_draw(1) [OF assms(2) n2] lognormal_draw(1) [OF assms(2) n3]
      lognormal_draw(1) [OF assms(2) n4] by simp_all
  show ?thesis
    apply (rule exI [of _ d], rule exI [of _ st'])
    apply (simp only: g d column_def map_of.simps fst_conv snd_conv)
    apply (simp add: lens)
    apply (auto simp: clip_def)
    done
qed

theorem permeabilities_clamped_witness:
  "uniform_in_bounds counter_rng \<and> lognormal_positive counter_rng \<and> (0::int) \<le> 3 \<and>
   (\<exists>d st' core coates timur sdr.
     generate_nmr_permeability_data counter_rng \<lparr>n_samples = 3\<rparr> 0 = Inr (d, st') \<and>
     column d ''Core_Permeability_mD'' = Inr core \<and>
     column d ''Coates_Permeability_mD'' = Inr coates \<and>
     column d ''Timur_Coates_Permeability_mD'' = Inr timur \<and>
     column d ''SDR_Permeability_mD'' = Inr sdr \<and>
     length core = 3 \<and> length coates = 3 \<and> length timur = 3 \<and> length sdr = 3 \<and>
     (\<forall>x \<in> set core \<union> set coates \<union> set timur \<union> set sdr. 0.01 \<le> x \<and> x \<le> 10000))"
proof -
  have h: "(0::int) \<le> n_samples \<lparr>n_samples = 3\<rparr>" by simp
  show ?thesis
    using permeabilities_clamped [OF counter_uniform_ok counter_lognormal_ok h, of 0]
      counter_uniform_ok counter_lognormal_ok
    by simp
qed

subsection \<open>The Coates estimate and the ground truth\<close>



subsection \<open>The depth column\<close>

text \<open>
  Claim C9. For a sample count of at least two, whatever the random stream and its
  state, the run returns a data frame whose \<^verbatim>\<open>Depth_m\<close> column is
  \<^verbatim>\<open>linspace(2000, 2500, n_samples)\<close>: one entry per sample, entry \<open>i\<close> equal to
  \<open>2000 + i * 500 / (n_samples - 1)\<close>, strictly increasing, first entry 2000 and last
  entry 2500.
\<close>

theorem depth_evenly_spaced:
  assumes "2 \<le> n_samples self"
  shows "\<exists>d st' depth.
     generate_nmr_permeability_data R self st = Inr (d, st') \<and>
     column d ''Depth_m'' = Inr depth \<and>
     linspace 2000 2500 (n_samples self) = Inr depth \<and>
     length depth = nat (n_samples self) \<and>
     (\<forall>i < nat (n_samples self).
        depth ! i = 2000 + real i * (500 / (real (nat (n_samples self)) - 1))) \<and>
     sorted_wrt (<) depth \<and> hd depth = 2000 \<and> last depth = 2500"
proof -
  let ?n = "nat (n_samples self)"
  have n0: "0 \<le> n_samples self" and n2: "2 \<le> ?n" using assms by simp_all
  obtain d st' where g: "generate_nmr_permeability_data R self st = Inr (d, st')"
    using generate_returns [OF n0, of R st] by blast
  from generate_explicit [OF g] obtain depth rest where
    l: "linspace 2000 2500 (n_samples self) = Inr depth" and d: "d = (''Depth_m'', depth) # rest"
    by fastforce
  have len: "length depth = ?n" using linspace_length [OF n0, of 2000 2500] l by simp
  have nth: "\<And>i. i < ?n \<Longrightarrow> depth ! i = 2000 + real i * (500 / (real ?n - 1))"
    using linspace_nth [OF assms l] by simp
  have step: "0 < 500 / (real ?n - 1)" using n2 by simp
  have sorted: "sorted_wrt (<) depth"
    unfolding sorted_wrt_iff_nth_less
  proof (intro allI impI)
    fix i j assume ij: "i < j" and j: "j < length depth"
    have "real i < real j" using ij by simp
    then have "real i * (500 / (real ?n - 1)) < real j * (500 / (real ?n - 1))"
      using step by (rule mult_strict_right_mono)
    then show "depth ! i < depth ! j" using nth [of i] nth [of j] ij j len by simp
  qed
  have ne: "depth \<noteq> []" using len n2 by auto
  have h: "hd depth = 2000" using nth [of 0] n2 ne by (simp add: hd_conv_nth)
  have "last depth = depth ! (?n - 1)" using ne len by (simp add: last_conv_nth)
  also have "\<dots> = 2000 + real (?n - 1) * (500 / (real ?n - 1))" using nth [of "?n - 1"] n2 by simp
  also have "\<dots> = 2500"
  proof -
    have r: "real (?n - 1) = real ?n - 1" using n2 by simp
    have nz: "real ?n - 1 \<noteq> 0" using n2 by simp
    have c: "\<And>c::real. c \<noteq> 0 \<Longrightarrow> c * (500 / c) = 500" by simp
    show ?thesis unfolding r using c [OF nz] by linarith
  qed
  finally have la: "last depth = 2500" .
  show ?thesis using g l len nth sorted h la by (simp add: d column_def)
qed

theorem depth_evenly_spaced_witness:
  "(2::int) \<le> 3 \<and>
   (\<exists>d st' depth.
     generate_nmr_permeability_data counter_rng \<lparr>n_samples = 3\<rparr> 0 = Inr (d, st') \<and>
     column d ''Depth_m'' = Inr depth \<and> length depth = 3 \<and> depth ! 1 = 2250 \<and>
     sorted_wrt (<) depth \<and> hd depth = 2000 \<and> last depth = 2500)"
proof -
  have h: "(2::int) \<le> n_samples \<lparr>n_samples = 3\<rparr>" by simp
  show ?thesis using depth_evenly_spaced [OF h, of counter_rng 0] by fastforce
qed

subsection \<open>The T2 distribution\<close>

lemma np_max_Max:
  assumes "xs \<noteq> []"
  shows "np_max xs = Inr (Max (set xs))"
proof (cases xs)
  case Nil
  then show ?thesis using assms by simp
next
  case (Cons x rest)
  have "Max (set (x # rest)) = fold max rest x" by (rule Max.set_eq_fold)
  then show ?thesis using Cons by simp
qed

lemma logspace_neg: "num < 0 \<Longrightarrow> logspace start stop num = Inl ValueError"
  by (simp add: logspace_def linspace_neg)

lemma logspace_length:
  "0 \<le> num \<Longrightarrow> \<exists>ts. logspace start stop num = Inr ts \<and> length ts = nat num"
  using linspace_length [of num start stop] by (auto simp: logspace_def)

lemma max_scaled:
  fixes xs :: "real list"
  assumes "xs \<noteq> []" and "\<forall>x \<in> set xs. 0 < x"
  shows "Max (set (map (\<lambda>a. a / Max (set xs)) xs)) = 1"
proof -
  let ?m = "Max (set xs)"
  have fin: "finite (set xs)" and ne: "set xs \<noteq> {}" using assms(1) by simp_all
  have m_in: "?m \<in> set xs" using Max_in [OF fin ne] .
  have m_pos: "0 < ?m" using assms(2) m_in by blast
  have "Max ((\<lambda>a. a / ?m) ` set xs) = 1"
  proof (rule Max_eqI)
    show "finite ((\<lambda>a. a / ?m) ` set xs)" by simp
    show "\<And>y. y \<in> (\<lambda>a. a / ?m) ` set xs \<Longrightarrow> y \<le> 1"
      using m_pos by (auto simp: divide_le_eq_1)
    show "1 \<in> (\<lambda>a. a / ?m) ` set xs"
      using m_in m_pos by (auto simp: image_iff intro!: bexI [of _ ?m])
  qed
  then show ?thesis by simp
qed

text \<open>
  Claim C4. \<^verbatim>\<open>generate_t2_distribution\<close> raises for every bin count below one (the
  exception is numpy's \<^verbatim>\<open>ValueError\<close>: from \<^verbatim>\<open>logspace\<close> for a negative count, from \<^verbatim>\<open>np.max\<close>
  of the empty array for zero), and for every bin count of at least one it returns as
  many times and as many amplitudes as there are bins.
\<close>

theorem t2_distribution_domain:
  "(n_bins < 1 \<longrightarrow> generate_t2_distribution self n_bins = Inl ValueError) \<and>
   (1 \<le> n_bins \<longrightarrow>
      (\<exists>t2_times amplitudes.
         generate_t2_distribution self n_bins = Inr (t2_times, amplitudes) \<and>
         length t2_times = nat n_bins \<and> length amplitudes = nat n_bins))"
proof (intro conjI impI)
  assume lt: "n_bins < 1"
  show "generate_t2_distribution self n_bins = Inl ValueError"
  proof (cases "n_bins < 0")
    case True
    then show ?thesis by (simp add: generate_t2_distribution_def logspace_neg)
  next
    case False
    then have "n_bins = 0" using lt by simp
    then show ?thesis
      by (simp add: generate_t2_distribution_def logspace_def linspace_def)
  qed
next
  assume ge: "1 \<le> n_bins"
  then obtain ts where ts: "logspace (- 1) 4 n_bins = Inr ts" and len: "length ts = nat n_bins"
    using logspace_length [of n_bins "- 1" 4] by auto
  have ne: "ts \<noteq> []" using len ge by auto
  show "\<exists>t2_times amplitudes.
         generate_t2_distribution self n_bins = Inr (t2_times, amplitudes) \<and>
         length t2_times = nat n_bins \<and> length amplitudes = nat n_bins"
    using ts len ne
    by (cases ts) (simp_all add: generate_t2_distribution_def Let_def)
qed

theorem t2_distribution_domain_witness:
  "generate_t2_distribution \<lparr>n_samples = 100\<rparr> 0 = Inl ValueError \<and>
   generate_t2_distribution \<lparr>n_samples = 100\<rparr> (- 2) = Inl ValueError \<and>
   (\<exists>t2_times amplitudes.
      generate_t2_distribution \<lparr>n_samples = 100\<rparr> 50 = Inr (t2_times, amplitudes) \<and>
      length t2_times = 50 \<and> length amplitudes = 50)"
  using t2_distribution_domain [of 0 "\<lparr>n_samples = 100\<rparr>"]
    t2_distribution_domain [of "- 2" "\<lparr>n_samples = 100\<rparr>"]
    t2_distribution_domain [of 50 "\<lparr>n_samples = 100\<rparr>"]
  by simp

text \<open>
  Claim C8. For at least two bins the amplitudes returned have maximum exactly 1, and
  the times are strictly increasing from 0.1 to 10000.
\<close>

theorem t2_distribution_normalised:
  assumes "2 \<le> n_bins"
  shows "\<exists>t2_times amplitudes.
     generate_t2_distribution self n_bins = Inr (t2_times, amplitudes) \<and>
     length t2_times = nat n_bins \<and> length amplitudes = nat n_bins \<and>
     np_max amplitudes = Inr 1 \<and>
     sorted_wrt (<) t2_times \<and> hd t2_times = 0.1 \<and> last t2_times = 10000"
proof -
  let ?n = "nat n_bins"
  have n0: "0 \<le> n_bins" and n2: "2 \<le> ?n" using assms by simp_all
  obtain ys where ys: "linspace (- 1) 4 n_bins = Inr ys" and len: "length ys = ?n"
    using linspace_length [OF n0, of "- 1" 4] by auto
  define ts where "ts = map (\<lambda>v. 10 powr v) ys"
  have lts: "length ts = ?n" by (simp add: ts_def len)
  have ls: "logspace (- 1) 4 n_bins = Inr ts" by (simp add: logspace_def ys ts_def)
  have nth: "\<And>i. i < ?n \<Longrightarrow> ys ! i = - 1 + real i * (5 / (real ?n - 1))"
    using linspace_nth [OF assms ys] by simp
  have tnth: "\<And>i. i < ?n \<Longrightarrow> ts ! i = 10 powr (ys ! i)" using len by (simp add: ts_def)
  have step: "0 < 5 / (real ?n - 1)" using n2 by simp
  have sorted: "sorted_wrt (<) ts"
    unfolding sorted_wrt_iff_nth_less
  proof (intro allI impI)
    fix i j assume ij: "i < j" and j: "j < length ts"
    have "real i < real j" using ij by simp
    then have "real i * (5 / (real ?n - 1)) < real j * (5 / (real ?n - 1))"
      using step by (rule mult_strict_right_mono)
    then have "ys ! i < ys ! j" using nth [of i] nth [of j] ij j lts by simp
    then have "(10::real) powr (ys ! i) < 10 powr (ys ! j)" by simp
    then show "ts ! i < ts ! j" using ij j lts tnth [of i] tnth [of j] by simp
  qed
  have ne: "ts \<noteq> []" using lts n2 by auto
  have "hd ts = 10 powr (ys ! 0)" using ne tnth [of 0] n2 by (simp add: hd_conv_nth)
  also have "\<dots> = 10 powr (- 1)" using nth [of 0] n2 by simp
  also have "\<dots> = 0.1" by (simp add: powr_minus_divide)
  finally have h: "hd ts = 0.1" .
  have "last ts = 10 powr (ys ! (?n - 1))"
    using ne lts tnth [of "?n - 1"] n2 by (simp add: last_conv_nth)
  also have "ys ! (?n - 1) = 4"
  proof -
    have r: "real (?n - 1) = real ?n - 1" using n2 by simp
    have nz: "real ?n - 1 \<noteq> 0" using n2 by simp
    have c: "\<And>c::real. c \<noteq> 0 \<Longrightarrow> c * (5 / c) = 5" by simp
    have "ys ! (?n - 1) = - 1 + real (?n - 1) * (5 / (real ?n - 1))"
      using nth [of "?n - 1"] n2 by simp
    then show ?thesis unfolding r using c [OF nz] by linarith
  qed
  also have "(10::real) powr 4 = 10000" by simp
  finally have la: "last ts = 10000" .
  define amps where "amps = map2 (\<lambda>c f. 0.3 * c + 0.7 * f)
      (map (\<lambda>t. exp (- ((ln t - ln 3) ^ 2) / (2 * 0.5 ^ 2))) ts)
      (map (\<lambda>t. exp (- ((ln t - ln 200) ^ 2) / (2 * 0.8 ^ 2))) ts)"
  have lam: "length amps = ?n" by (simp add: amps_def lts)
  have ane: "amps \<noteq> []" using lam n2 by auto
  have apos: "\<forall>a \<in> set amps. 0 < a"
    unfolding amps_def by (auto simp: set_zip intro!: add_pos_pos)
  have mx: "np_max amps = Inr (Max (set amps))" using np_max_Max [OF ane] .
  have res: "generate_t2_distribution self n_bins =
      Inr (ts, map (\<lambda>a. a / Max (set amps)) amps)"
    unfolding generate_t2_distribution_def ls sum.case Let_def
    unfolding amps_def [symmetric] mx sum.case by (rule refl)
  have "np_max (map (\<lambda>a. a / Max (set amps)) amps) = Inr 1"
    using np_max_Max [of "map (\<lambda>a. a / Max (set amps)) amps"] ane
      max_scaled [OF ane apos] by simp
  then show ?thesis using res lts lam sorted h la by simp
qed

theorem t2_distribution_normalised_witness:
  "(2::int) \<le> 50 \<and>
   (\<exists>t2_times amplitudes.
     generate_t2_distribution \<lparr>n_samples = 100\<rparr> 50 = Inr (t2_times, amplitudes) \<and>
     length t2_times = 50 \<and> length amplitudes = 50 \<and>
     np_max amplitudes = Inr 1 \<and>
     sorted_wrt (<) t2_times \<and> hd t2_times = 0.1 \<and> last t2_times = 10000)"
proof -
  have h: "(2::int) \<le> 50" by simp
  show ?thesis using t2_distribution_normalised [OF h, of "\<lparr>n_samples = 100\<rparr>"] by simp
qed

subsection \<open>Model statistics\<close>

lemma statistics_loop_frame: "fst (statistics_loop data models stats) = data"
  by (induction models arbitrary: stats) (simp_all split: sum.splits)

lemma model_statistics_float:
  assumes "frame_column data ''Core_Permeability_mD'' = Inr (FloatSeries core)"
    and "frame_column data (model @ ''_Permeability_mD'') = Inr (FloatSeries pred)"
  shows "\<exists>s. model_statistics data model = Inr s"
  using assms by (simp add: model_statistics_def Let_def)

lemma model_statistics_object:
  assumes "frame_column data ''Core_Permeability_mD'' = Inr EmptyObjectSeries"
    and "frame_column data (model @ ''_Permeability_mD'') = Inr EmptyObjectSeries"
  shows "model_statistics data model = Inl ZeroDivisionError"
  using assms by (simp add: model_statistics_def Let_def)

lemma generated_frame_is_float:
  assumes "generate_nmr_permeability_data R self st = Inr (d, st')"
  shows "float_permeability_columns (float_frame d)"
  using generate_explicit [OF assms]
  by (auto simp: float_permeability_columns_def float_frame_def frame_column_def)

lemma empty_data_columns: "float_permeability_columns empty_data"
  by (simp add: float_permeability_columns_def empty_data_def frame_column_def)

lemma empty_object_data_columns: "object_permeability_columns empty_object_data"
  by (simp add: object_permeability_columns_def empty_object_data_def frame_column_def)

text \<open>
  Claim C3, as the code has it. \<^verbatim>\<open>calculate_statistics\<close> has no check of its own. On every
  data frame whose four permeability columns are float arrays, whatever their entries
  and also when there are no rows, it returns the statistics of all three models; in
  particular it does so on every non-empty data set with all ground-truth values
  nonzero. An empty frame whose columns have dtype object raises \<^verbatim>\<open>ZeroDivisionError\<close>.
  The data frame after the call is the data frame before it.
\<close>

theorem calculate_statistics_float_frames:
  "(float_permeability_columns data \<longrightarrow>
      (\<exists>stats. snd (calculate_statistics self data) = Inr stats \<and>
         dom stats = {''Coates'', ''Timur_Coates'', ''SDR''})) \<and>
   (object_permeability_columns data \<longrightarrow>
      snd (calculate_statistics self data) = Inl ZeroDivisionError) \<and>
   fst (calculate_statistics self data) = data"
proof (intro conjI impI)
  assume "float_permeability_columns data"
  then obtain core coates timur sdr where
    c: "frame_column data ''Core_Permeability_mD'' = Inr (FloatSeries core)" and
    "frame_column data ''Coates_Permeability_mD'' = Inr (FloatSeries coates)"
    "frame_column data ''Timur_Coates_Permeability_mD'' = Inr (FloatSeries timur)"
    "frame_column data ''SDR_Permeability_mD'' = Inr (FloatSeries sdr)"
    unfolding float_permeability_columns_def by auto
  then obtain s1 s2 s3 where
    "model_statistics data ''Coates'' = Inr s1"
    "model_statistics data ''Timur_Coates'' = Inr s2"
    "model_statistics data ''SDR'' = Inr s3"
    using model_statistics_float [OF c, of "''Coates''"]
      model_statistics_float [OF c, of "''Timur_Coates''"]
      model_statistics_float [OF c, of "''SDR''"] by auto
  then show "\<exists>stats. snd (calculate_statistics self data) = Inr stats \<and>
      dom stats = {''Coates'', ''Timur_Coates'', ''SDR''}"
    by (auto simp: calculate_statistics_def)
next
  assume "object_permeability_columns data"
  then have "model_statistics data ''Coates'' = Inl ZeroDivisionError"
    using model_statistics_object [of data "''Coates''"]
    unfolding object_permeability_columns_def by simp
  then show "snd (calculate_statistics self data) = Inl ZeroDivisionError"
    by (simp add: calculate_statistics_def)
next
  show "fst (calculate_statistics self data) = data"
    unfolding calculate_statistics_def by (rule statistics_loop_frame)
qed

theorem calculate_statistics_float_frames_witness:
  "float_permeability_columns empty_data \<and>
   (\<exists>stats. snd (calculate_statistics \<lparr>n_samples = 100\<rparr> empty_data) = Inr stats \<and>
      dom stats = {''Coates'', ''Timur_Coates'', ''SDR''}) \<and>
   object_permeability_columns empty_object_data \<and>
   snd (calculate_statistics \<lparr>n_samples = 100\<rparr> empty_object_data) = Inl ZeroDivisionError \<and>
   fst (calculate_statistics \<lparr>n_samples = 100\<rparr> empty_data) = empty_data"
  using calculate_statistics_float_frames [of empty_data "\<lparr>n_samples = 100\<rparr>"]
    calculate_statistics_float_frames [of empty_object_data "\<lparr>n_samples = 100\<rparr>"]
    empty_data_columns empty_object_data_columns
  by blast

lemmas stats_eval =
  calculate_statistics_def model_statistics_def frame_column_def Let_def
  np_corrcoef_def np_cov_def np_mean_def series_mean_def fsum_def fsub_def signed_inf_def

text \<open>
  Claim C3, as stated, fails: neither the empty float data frame nor a zero
  ground-truth value raises. With no rows every statistic is \<^verbatim>\<open>nan\<close>; with one row
  whose ground truth is zero the correlation is \<^verbatim>\<open>nan\<close> and both errors are \<^verbatim>\<open>inf\<close>.
\<close>

theorem statistics_of_empty_and_zero_core:
  "snd (calculate_statistics \<lparr>n_samples = 100\<rparr> empty_data) =
     Inr [''Coates'' \<mapsto> \<lparr>correlation = NaN, rmse_log = NaN, mape = NaN\<rparr>,
          ''Timur_Coates'' \<mapsto> \<lparr>correlation = NaN, rmse_log = NaN, mape = NaN\<rparr>,
          ''SDR'' \<mapsto> \<lparr>correlation = NaN, rmse_log = NaN, mape = NaN\<rparr>] \<and>
   snd (calculate_statistics \<lparr>n_samples = 100\<rparr> zero_core_data) =
     Inr [''Coates'' \<mapsto> \<lparr>correlation = NaN, rmse_log = PInf, mape = PInf\<rparr>,
          ''Timur_Coates'' \<mapsto> \<lparr>correlation = NaN, rmse_log = PInf, mape = PInf\<rparr>,
          ''SDR'' \<mapsto> \<lparr>correlation = NaN, rmse_log = PInf, mape = PInf\<rparr>]"
  by (simp add: stats_eval empty_data_def zero_core_data_def)

end
